theory Spec2Isabelle
  imports Main "HOL-Library.Word" "HOL-Library.Sublist"
begin

section \<open>Severity levels (log.go, lines 16-41)\<close>

text \<open>
  The RFC 5424 constants are an \<open>iota\<close> block; every function takes and stores the level
  as \<open>int32\<close>, which is a 32-bit word read as two's complement (\<open>sint\<close>).
\<close>

definition LEVEL_EMERGENCY :: "32 word" where "LEVEL_EMERGENCY = 0"
definition LEVEL_ALERT :: "32 word" where "LEVEL_ALERT = 1"
definition LEVEL_CRITICAL :: "32 word" where "LEVEL_CRITICAL = 2"
definition LEVEL_ERROR :: "32 word" where "LEVEL_ERROR = 3"
definition LEVEL_WARNING :: "32 word" where "LEVEL_WARNING = 4"
definition LEVEL_NOTICE :: "32 word" where "LEVEL_NOTICE = 5"
definition LEVEL_INFO :: "32 word" where "LEVEL_INFO = 6"
definition LEVEL_DEBUG :: "32 word" where "LEVEL_DEBUG = 7"
definition LEVEL_VERBOSE :: "32 word" where "LEVEL_VERBOSE = 8"

definition levelStrings :: "string list" where
  "levelStrings =
     [''[EMERGENCY]'', ''[ALERT]'', ''[CRITICAL]'', ''[ERROR]'', ''[WARNING]'',
      ''[NOTICE]'', ''[INFO]'', ''[DEBUG]'', ''[VERB]'']"

section \<open>The logger, the process globals and the outside world\<close>

text \<open>
  An \<open>*os.File\<close> is the standard error stream or a file that \<open>os.OpenFile\<close> returned;
  the pointer itself may be \<open>nil\<close>, which is \<open>None\<close>. An \<open>error\<close> value carries the
  text its \<open>Error()\<close> method prints.
\<close>

datatype os_File = Stderr | Opened nat

datatype error = OsError string

definition ErrInvalid :: error where
  "ErrInvalid = OsError ''invalid argument''"

text \<open>
  The struct \<open>Logger\<close>. The mutex \<open>mu\<close> is its locked bit: the model is sequential, so
  the only thing a mutex can do is to be free, or to block the caller for good.
\<close>

record Logger =
  level :: "32 word"
  mu :: bool
  out :: "os_File option"
  path :: string
  buf :: string
  microseconds :: bool
  shortfile :: bool

text \<open>
  What the code asks of the operating system and of the Go runtime is recorded as a
  trace of calls, in order. The answers come from the environment \<open>env\<close> below.
\<close>

datatype event =
    EvWrite "os_File option" string
  | EvOpenFile string
  | EvClose "os_File option"
  | EvReadDir string
  | EvRemove string
  | EvGoRotate int

text \<open>
  The package globals \<open>_log\<close> and \<open>saveTime\<close> (a \<open>time.Duration\<close>: nanoseconds in an
  \<open>int64\<close>; no arithmetic is done on it, so it is an \<open>int\<close>), with the trace.
\<close>

record world =
  logger :: Logger
  saveTime :: int
  trace :: "event list"

text \<open>
  A \<open>time.Time\<close>: the fields \<open>Date\<close>, \<open>Clock\<close> and \<open>Nanosecond\<close> return, and the
  instant in nanoseconds that \<open>Sub\<close> measures with.
\<close>

record Time =
  year :: int
  month :: nat
  day :: nat
  hour :: nat
  minute :: nat
  second :: nat
  nanosecond :: nat
  instant :: int

record FileInfo =
  Name :: string
  ModTime :: int

text \<open>
  The answers of the runtime and the operating system during one call:
  \<open>time.Now()\<close>, \<open>runtime.Caller(2)\<close> (\<open>None\<close> when \<open>ok\<close> is false),
  \<open>os.OpenFile(path, O_CREATE|O_APPEND|O_RDWR, 0666)\<close>, the error of \<open>Write\<close> on a
  file that is not \<open>nil\<close>, \<open>ioutil.ReadDir\<close>, \<open>filepath.Dir\<close>, and the text
  \<open>%s\<close> prints for a \<open>time.Duration\<close>.
\<close>

record env =
  now :: Time
  caller :: "(string \<times> int) option"
  open_file :: "string \<Rightarrow> error + os_File"
  write_file :: "os_File \<Rightarrow> string \<Rightarrow> error option"
  read_dir :: "string \<Rightarrow> error + FileInfo list"
  filepath_Dir :: "string \<Rightarrow> string"
  duration_String :: "int \<Rightarrow> string"

section \<open>Control flow: panics, a blocked lock, deferred calls\<close>

text \<open>
  A call returns a value, panics (\<open>IndexOutOfRange\<close>), dies in the runtime
  (\<open>UnlockOfUnlockedMutex\<close> is a fatal error, not a panic) or never returns because it
  waits for a mutex that nobody will release (\<open>Blocked\<close>). The state is returned in
  every case: what was written before a panic stays written.
\<close>

datatype fault = IndexOutOfRange | UnlockOfUnlockedMutex | Blocked

type_synonym ('s, 'a) prog = "'s \<Rightarrow> (fault + 'a) \<times> 's"

definition ret :: "'a \<Rightarrow> ('s, 'a) prog" where
  "ret x = (\<lambda>s. (Inr x, s))"

definition andThen :: "('s, 'a) prog \<Rightarrow> ('a \<Rightarrow> ('s, 'b) prog) \<Rightarrow> ('s, 'b) prog" where
  "andThen m f = (\<lambda>s. case m s of (Inl x, s') \<Rightarrow> (Inl x, s') | (Inr a, s') \<Rightarrow> f a s')"

fun seqs :: "('s, unit) prog list \<Rightarrow> ('s, unit) prog" where
  "seqs [] = ret ()"
| "seqs (m # ms) = andThen m (\<lambda>_. seqs ms)"

text \<open>
  \<open>defer d\<close> followed by the rest of the function body \<open>m\<close>: \<open>d\<close> runs when \<open>m\<close>
  returns and when it panics, and does not run when \<open>m\<close> never returns or the runtime
  stops the process.
\<close>

definition with_defer :: "('s, unit) prog \<Rightarrow> ('s, 'a) prog \<Rightarrow> ('s, 'a) prog" where
  "with_defer d m = (\<lambda>s. case m s of
       (Inl Blocked, s') \<Rightarrow> (Inl Blocked, s')
     | (Inl UnlockOfUnlockedMutex, s') \<Rightarrow> (Inl UnlockOfUnlockedMutex, s')
     | (r, s') \<Rightarrow> (case d s' of (Inl x, s'') \<Rightarrow> (Inl x, s'') | (Inr _, s'') \<Rightarrow> (r, s'')))"

definition mu_Lock :: "(world, unit) prog" where
  "mu_Lock = (\<lambda>w. if mu (logger w) then (Inl Blocked, w)
                  else (Inr (), w\<lparr>logger := (logger w)\<lparr>mu := True\<rparr>\<rparr>))"

definition mu_Unlock :: "(world, unit) prog" where
  "mu_Unlock = (\<lambda>w. if mu (logger w) then (Inr (), w\<lparr>logger := (logger w)\<lparr>mu := False\<rparr>\<rparr>)
                    else (Inl UnlockOfUnlockedMutex, w))"

text \<open>A program on the byte buffer, run on \<open>_log.buf\<close>.\<close>

definition on_buf :: "(string, 'a) prog \<Rightarrow> (world, 'a) prog" where
  "on_buf m = (\<lambda>w. case m (buf (logger w)) of
                     (r, b) \<Rightarrow> (r, w\<lparr>logger := (logger w)\<lparr>buf := b\<rparr>\<rparr>))"

definition append_bytes :: "string \<Rightarrow> (string, unit) prog" where
  "append_bytes s = (\<lambda>b. (Inr (), b @ s))"

section \<open>itoa and formatHeader (log.go, lines 280-344)\<close>

text \<open>
  The loop of \<open>itoa\<close> fills the 32-byte array \<open>b\<close> from its end: \<open>bp\<close> is the index
  of the first digit written, \<open>ds\<close> is \<open>b[bp:]\<close>. Writing below index 0 panics.
\<close>

function itoa_loop :: "nat \<Rightarrow> int \<Rightarrow> nat \<Rightarrow> string \<Rightarrow> fault + string" where
  "itoa_loop u wid bp ds =
     (if u > 0 \<or> wid > 0
      then (if bp = 0 then Inl IndexOutOfRange
            else itoa_loop (u div 10) (wid - 1) (bp - 1) (char_of (u mod 10 + 48) # ds))
      else Inr ds)"
  by pat_completeness auto
termination
  by (relation "measure (\<lambda>(u, wid, bp, ds). u + nat wid)") auto

declare itoa_loop.simps [simp del]

text \<open>\<open>uint(i)\<close> on a 64-bit platform is \<open>i mod 2 ^ 64\<close>.\<close>

definition itoa :: "int \<Rightarrow> int \<Rightarrow> (string, unit) prog" where
  "itoa i wid = (\<lambda>b.
     let u = nat (i mod 2 ^ 64) in
     if u = 0 \<and> wid \<le> 1 then (Inr (), b @ ''0'')
     else (case itoa_loop u wid 32 [] of
             Inl x \<Rightarrow> (Inl x, b)
           | Inr ds \<Rightarrow> (Inr (), b @ ds)))"

text \<open>\<open>levelStrings[level]\<close>: an index below 0 or past the table panics.\<close>

definition append_levelString :: "32 word \<Rightarrow> (string, unit) prog" where
  "append_levelString lv = (\<lambda>b.
     if 0 \<le> sint lv \<and> sint lv < int (length levelStrings)
     then (Inr (), b @ levelStrings ! nat (sint lv))
     else (Inl IndexOutOfRange, b))"

text \<open>
  The loop \<open>for i := len(file) - 1; i > 0; i--\<close>: the first argument is the file,
  the second is \<open>i\<close>. The loop ends at \<open>i = 0\<close> without reading \<open>file[0]\<close>; on an
  empty file name \<open>i\<close> starts at \<open>-1\<close> and the loop does not run either.
\<close>

fun short_loop :: "string \<Rightarrow> nat \<Rightarrow> string" where
  "short_loop file 0 = file"
| "short_loop file (Suc i) =
     (if file ! Suc i = CHR ''/'' then drop (Suc i + 1) file else short_loop file i)"

definition short :: "string \<Rightarrow> string" where
  "short file = short_loop file (length file - 1)"

definition formatHeader ::
    "Logger \<Rightarrow> Time \<Rightarrow> 32 word \<Rightarrow> string \<Rightarrow> int \<Rightarrow> (string, unit) prog" where
  "formatHeader l t lv file line =
     seqs [
       itoa (year t) 4,
       append_bytes ''-'',
       itoa (int (month t)) 2,
       append_bytes ''-'',
       itoa (int (day t)) 2,
       append_bytes '' '',
       itoa (int (hour t)) 2,
       append_bytes '':'',
       itoa (int (minute t)) 2,
       append_bytes '':'',
       itoa (int (second t)) 2,
       (if microseconds l
        then seqs [append_bytes ''.'', itoa (int (nanosecond t div 1000)) 6]
        else ret ()),
       append_bytes '' '',
       append_levelString lv,
       append_bytes '' '',
       append_bytes (short file),
       append_bytes '':'',
       itoa line (- 1),
       append_bytes '': '']"

section \<open>The write path (log.go, lines 346-377)\<close>

definition GetLevel :: "world \<Rightarrow> 32 word" where
  "GetLevel w = level (logger w)"

text \<open>
  \<open>l.out.Write(l.buf)\<close>: the call is recorded with the handle and the bytes; on a
  \<open>nil\<close> handle \<open>Write\<close> returns \<open>ErrInvalid\<close>.
\<close>

definition out_Write :: "env \<Rightarrow> (world, error option) prog" where
  "out_Write e = (\<lambda>w.
     (Inr (case out (logger w) of
             None \<Rightarrow> Some ErrInvalid
           | Some f \<Rightarrow> write_file e f (buf (logger w))),
      w\<lparr>trace := trace w @ [EvWrite (out (logger w)) (buf (logger w))]\<rparr>))"

text \<open>
  \<open>Logger.output\<close> takes the text \<open>s\<close> that \<open>fmt.Sprintf(format, v...)\<close> returned. The
  newline is the byte 10.
\<close>

definition Logger_output :: "32 word \<Rightarrow> string \<Rightarrow> env \<Rightarrow> (world, error option) prog" where
  "Logger_output lv s e = (\<lambda>w.
     if sint lv > sint (GetLevel w) then (Inr None, w)
     else
       andThen mu_Lock (\<lambda>_.
       with_defer mu_Unlock
        (andThen mu_Unlock (\<lambda>_.
         let (file, line) = (case caller e of Some fl \<Rightarrow> fl | None \<Rightarrow> (''???'', 0)) in
         andThen mu_Lock (\<lambda>_.
         andThen (on_buf (\<lambda>b. (Inr (), []))) (\<lambda>_.
         andThen (\<lambda>w'. on_buf (formatHeader (logger w') (now e) lv file line) w') (\<lambda>_.
         andThen (on_buf (append_bytes s)) (\<lambda>_.
         andThen (if length s > 0 \<and> s ! (length s - 1) \<noteq> CHR 0x0A
                  then on_buf (append_bytes [CHR 0x0A]) else ret ()) (\<lambda>_.
         out_Write e)))))))) w)"

text \<open>
  Names for what \<open>Logger.output\<close> computes on the way: the bytes \<open>formatHeader\<close>
  appends to an empty buffer, the two results of \<open>runtime.Caller(2)\<close> after the
  \<open>!ok\<close> branch, and the whole line that is left in \<open>l.buf\<close> for the text \<open>s\<close>.
\<close>

definition itoa_text :: "int \<Rightarrow> int \<Rightarrow> string" where
  "itoa_text i wid = snd (itoa i wid [])"

definition header :: "Logger \<Rightarrow> Time \<Rightarrow> 32 word \<Rightarrow> string \<Rightarrow> int \<Rightarrow> string" where
  "header l t lv file line = snd (formatHeader l t lv file line [])"

definition caller_file :: "env \<Rightarrow> string" where
  "caller_file e = (case caller e of Some fl \<Rightarrow> fst fl | None \<Rightarrow> ''???'')"

definition caller_line :: "env \<Rightarrow> int" where
  "caller_line e = (case caller e of Some fl \<Rightarrow> snd fl | None \<Rightarrow> 0)"

definition log_line :: "Logger \<Rightarrow> env \<Rightarrow> 32 word \<Rightarrow> string \<Rightarrow> string" where
  "log_line l e lv s =
     header l (now e) lv (caller_file e) (caller_line e) @ s @
     (if length s > 0 \<and> s ! (length s - 1) \<noteq> CHR 0x0A then [CHR 0x0A] else [])"

text \<open>The public entry points of the write path (log.go, lines 177-210).\<close>

definition Critical :: "string \<Rightarrow> env \<Rightarrow> (world, unit) prog" where
  "Critical s e = andThen (Logger_output LEVEL_CRITICAL s e) (\<lambda>_. ret ())"

definition Error :: "string \<Rightarrow> env \<Rightarrow> (world, unit) prog" where
  "Error s e = andThen (Logger_output LEVEL_ERROR s e) (\<lambda>_. ret ())"

definition Warn :: "string \<Rightarrow> env \<Rightarrow> (world, unit) prog" where
  "Warn s e = andThen (Logger_output LEVEL_WARNING s e) (\<lambda>_. ret ())"

definition Notice :: "string \<Rightarrow> env \<Rightarrow> (world, unit) prog" where
  "Notice s e = andThen (Logger_output LEVEL_NOTICE s e) (\<lambda>_. ret ())"

definition Info :: "string \<Rightarrow> env \<Rightarrow> (world, unit) prog" where
  "Info s e = andThen (Logger_output LEVEL_INFO s e) (\<lambda>_. ret ())"

definition Debug :: "string \<Rightarrow> env \<Rightarrow> (world, unit) prog" where
  "Debug s e = andThen (Logger_output LEVEL_DEBUG s e) (\<lambda>_. ret ())"

definition Verbose :: "string \<Rightarrow> env \<Rightarrow> (world, unit) prog" where
  "Verbose s e = andThen (Logger_output LEVEL_VERBOSE s e) (\<lambda>_. ret ())"

text \<open>\<open>Stacktrace\<close> takes any \<open>int32\<close> as its level; \<open>s\<close> is the formatted text.\<close>

definition Stacktrace :: "32 word \<Rightarrow> string \<Rightarrow> env \<Rightarrow> (world, unit) prog" where
  "Stacktrace lv s e = (\<lambda>w.
     if sint lv > sint (GetLevel w) then (Inr (), w)
     else andThen (Logger_output lv s e) (\<lambda>_. ret ()) w)"

section \<open>Configuration (log.go, lines 69-99)\<close>

text \<open>What \<open>%v\<close> prints for an \<open>int32\<close>: the decimal digits, after a minus sign if negative.\<close>

fun decimal :: "nat \<Rightarrow> string" where
  "decimal n = (if n < 10 then [char_of (n + 48)]
                else decimal (n div 10) @ [char_of (n mod 10 + 48)])"

declare decimal.simps [simp del]

definition Sprint_int32 :: "32 word \<Rightarrow> string" where
  "Sprint_int32 lv = (if sint lv < 0 then ''-'' @ decimal (nat (- sint lv))
                      else decimal (nat (sint lv)))"

definition SetLevel :: "32 word \<Rightarrow> env \<Rightarrow> (world, unit) prog" where
  "SetLevel lv e =
     andThen (Critical (''set log level to '' @ Sprint_int32 lv) e) (\<lambda>_.
     (\<lambda>w. (Inr (), w\<lparr>logger := (logger w)\<lparr>level := lv\<rparr>\<rparr>)))"

text \<open>
  \<open>os.OpenFile\<close> returns a \<open>nil\<close> file together with an error. \<open>SetFile\<close> has no
  \<open>return\<close> in its error branch: both assignments follow in either case.
\<close>

definition os_OpenFile :: "string \<Rightarrow> env \<Rightarrow> (world, error + os_File) prog" where
  "os_OpenFile p e = (\<lambda>w. (Inr (open_file e p), w\<lparr>trace := trace w @ [EvOpenFile p]\<rparr>))"

definition SetFile :: "string \<Rightarrow> env \<Rightarrow> (world, unit) prog" where
  "SetFile p e =
     andThen (os_OpenFile p e) (\<lambda>r.
     andThen (case r of
                Inl (OsError msg) \<Rightarrow> Error (''error on SetLogFile: err: '' @ msg) e
              | Inr f \<Rightarrow> ret ()) (\<lambda>_.
     (\<lambda>w. (Inr (), w\<lparr>logger := (logger w)\<lparr>out := (case r of Inl _ \<Rightarrow> None | Inr f \<Rightarrow> Some f),
                                              path := p\<rparr>\<rparr>))))"

text \<open>\<open>ReOpen\<close> ignores its argument and reopens \<open>_log.path\<close>.\<close>

definition out_Close :: "(world, unit) prog" where
  "out_Close = (\<lambda>w. (Inr (), w\<lparr>trace := trace w @ [EvClose (out (logger w))]\<rparr>))"

definition ReOpen :: "string \<Rightarrow> env \<Rightarrow> (world, unit) prog" where
  "ReOpen p e = (\<lambda>w.
     if path (logger w) = [] then (Inr (), w)
     else
       andThen mu_Lock (\<lambda>_.
       with_defer mu_Unlock
        (andThen out_Close (\<lambda>_.
         (\<lambda>w'. SetFile (path (logger w')) e w')))) w)"

section \<open>Rotation and retention (log.go, lines 101-175)\<close>

definition Second :: int where "Second = 1000000000"
definition Minute :: int where "Minute = 60 * Second"
definition Hour :: int where "Hour = 60 * Minute"

text \<open>
  \<open>EnableRotate\<close> starts two goroutines that run for the rest of the process; starting
  them is the event \<open>EvGoRotate period\<close>. What they call on each period boundary is
  \<open>ReOpen\<close> and \<open>deleteExpiredLog\<close>.
\<close>

definition EnableRotate :: "int \<Rightarrow> env \<Rightarrow> (world, unit) prog" where
  "EnableRotate period e = (\<lambda>w.
     if period \<noteq> Minute \<and> period \<noteq> Hour \<and> period \<noteq> Hour * 24
     then Error (''bad rotate peirod: '' @ duration_String e period) e w
     else (Inr (), w\<lparr>trace := trace w @ [EvGoRotate period]\<rparr>))"

definition SetLogSaveTime :: "int \<Rightarrow> (world, unit) prog" where
  "SetLogSaveTime period = (\<lambda>w. (Inr (), w\<lparr>saveTime := period\<rparr>))"

text \<open>
  \<open>strings.Index(s, substr)\<close>: the index of the first occurrence, \<open>-1\<close> if there is
  none.
\<close>

fun strings_Index :: "string \<Rightarrow> string \<Rightarrow> int" where
  "strings_Index [] substr = (if substr = [] then 0 else - 1)"
| "strings_Index (c # s) substr =
     (if prefix substr (c # s) then 0
      else (let r = strings_Index s substr in if r < 0 then - 1 else r + 1))"

text \<open>
  \<open>filepath.Base\<close> with the separator \<open>/\<close>: the last element of the path, after
  the trailing slashes are dropped; \<open>.\<close> for the empty path, \<open>/\<close> for slashes only.
\<close>

definition filepath_Base :: "string \<Rightarrow> string" where
  "filepath_Base p =
     (if p = [] then ''.''
      else (let p1 = rev (dropWhile (\<lambda>c. c = CHR ''/'') (rev p));
                p2 = rev (takeWhile (\<lambda>c. c \<noteq> CHR ''/'') (rev p1))
            in if p2 = [] then ''/'' else p2))"

text \<open>
  \<open>t.Sub(u)\<close>: the difference of the instants, kept within the range of a
  \<open>time.Duration\<close>.
\<close>

definition time_Sub :: "int \<Rightarrow> int \<Rightarrow> int" where
  "time_Sub t u =
     (let d = t - u in
      if d > 2 ^ 63 - 1 then 2 ^ 63 - 1 else if d < - (2 ^ 63) then - (2 ^ 63) else d)"

definition os_Remove :: "string \<Rightarrow> (world, unit) prog" where
  "os_Remove p = (\<lambda>w. (Inr (), w\<lparr>trace := trace w @ [EvRemove p]\<rparr>))"

definition ioutil_ReadDir :: "string \<Rightarrow> env \<Rightarrow> (world, error + FileInfo list) prog" where
  "ioutil_ReadDir d e = (\<lambda>w. (Inr (read_dir e d), w\<lparr>trace := trace w @ [EvReadDir d]\<rparr>))"

text \<open>The \<open>range\<close> loop of \<open>deleteExpiredLog\<close> over the directory's entries.\<close>

fun deleteExpiredLog_loop ::
    "string \<Rightarrow> string \<Rightarrow> env \<Rightarrow> FileInfo list \<Rightarrow> (world, unit) prog" where
  "deleteExpiredLog_loop dirName logName e [] = ret ()"
| "deleteExpiredLog_loop dirName logName e (fileInfo # fileInfos) =
     andThen (\<lambda>w.
       let fileName = Name fileInfo; mtime = ModTime fileInfo in
       if saveTime w \<noteq> 0 * Second \<and>
          strings_Index (fileName @ ''.'') logName = 0 \<and>
          time_Sub (instant (now e)) mtime \<ge> saveTime w
       then os_Remove (dirName @ ''/'' @ fileName) w
       else (Inr (), w))
     (\<lambda>_. deleteExpiredLog_loop dirName logName e fileInfos)"

text \<open>
  When \<open>ioutil.ReadDir\<close> fails it returns a \<open>nil\<close> list: the warning is logged and the
  loop runs over no entry.
\<close>

definition deleteExpiredLog :: "int \<Rightarrow> env \<Rightarrow> (world, unit) prog" where
  "deleteExpiredLog period e = (\<lambda>w.
     let dirName = filepath_Dir e (path (logger w));
         logName = filepath_Base (path (logger w)) in
     andThen (ioutil_ReadDir dirName e) (\<lambda>r.
     andThen (case r of
                Inl (OsError msg) \<Rightarrow>
                  Warn (''read dir '' @ dirName @ '' fail, err is '' @ msg) e
              | Inr _ \<Rightarrow> ret ()) (\<lambda>_.
     deleteExpiredLog_loop dirName logName e
       (case r of Inl _ \<Rightarrow> [] | Inr fileInfos \<Rightarrow> fileInfos))) w)"

section \<open>The initial state and a sample environment\<close>

text \<open>The value of \<open>_log\<close> and \<open>saveTime\<close> at program start (log.go, lines 60-67).\<close>

definition initial_world :: world where
  "initial_world =
     \<lparr>logger = \<lparr>level = LEVEL_NOTICE, mu = False, out = Some Stderr, path = [],
                 buf = [], microseconds = True, shortfile = True\<rparr>,
      saveTime = 0 * Second, trace = []\<rparr>"

text \<open>
  A concrete environment for the evaluations below: the clock reads 14 May 2015,
  09:56:00.023132 UTC, the caller is line 42 of \<open>/home/u/main.go\<close>, every
  \<open>OpenFile\<close> fails with "permission denied", every write succeeds, the directory
  of the log file is \<open>/var/log\<close> and is empty, and a duration prints as \<open>2m0s\<close>
  (the environment is asked for the directory of \<open>/var/log/app.log\<close> and for the
  text of two minutes only).
\<close>

definition sample_time :: Time where
  "sample_time =
     \<lparr>year = 2015, month = 5, day = 14, hour = 9, minute = 56, second = 0,
      nanosecond = 23132000, instant = 1431597360023132000\<rparr>"

definition sample_env :: env where
  "sample_env =
     \<lparr>now = sample_time, caller = Some (''/home/u/main.go'', 42),
      open_file = (\<lambda>p. Inl (OsError ''permission denied'')),
      write_file = (\<lambda>f b. None),
      read_dir = (\<lambda>d. Inr []),
      filepath_Dir = (\<lambda>p. ''/var/log''),
      duration_String = (\<lambda>d. ''2m0s'')\<rparr>"

text \<open>The logger after \<open>SetLevel(LEVEL_ALERT)\<close>: the threshold is 1.\<close>

definition alert_world :: world where
  "alert_world = initial_world\<lparr>logger := (logger initial_world)\<lparr>level := LEVEL_ALERT\<rparr>\<rparr>"

text \<open>
  A logger that writes to \<open>/var/log/app.log\<close> and keeps rotated files for one hour,
  and a listing of \<open>/var/log\<close> read at the sample time: a rotated file two hours old,
  a rotated file one nanosecond short of an hour old, and two files of other programs,
  both two hours old.
\<close>

definition sweep_world :: world where
  "sweep_world =
     initial_world\<lparr>logger := (logger initial_world)\<lparr>out := Some (Opened 3),
                                                     path := ''/var/log/app.log''\<rparr>,
                   saveTime := Hour\<rparr>"

definition sweep_env :: env where
  "sweep_env =
     sample_env\<lparr>read_dir := (\<lambda>d. Inr
       [\<lparr>Name = ''app.log.2015051407'', ModTime = instant sample_time - 2 * Hour\<rparr>,
        \<lparr>Name = ''app.log.2015051408'', ModTime = instant sample_time - Hour + 1\<rparr>,
        \<lparr>Name = ''app.logger'', ModTime = instant sample_time - 2 * Hour\<rparr>,
        \<lparr>Name = ''other.log.2015051407'', ModTime = instant sample_time - 2 * Hour\<rparr>])\<rparr>"

text \<open>
  The same logger with a retention of one second, and a listing that holds the active
  file \<open>app.log\<close> itself, last written two seconds before the sweep reads the clock.
\<close>

definition active_world :: world where
  "active_world = sweep_world\<lparr>saveTime := Second\<rparr>"

definition active_env :: env where
  "active_env =
     sample_env\<lparr>read_dir := (\<lambda>d. Inr
       [\<lparr>Name = ''app.log'', ModTime = instant sample_time - 2 * Second\<rparr>])\<rparr>"

section \<open>Sequencing and the buffer\<close>

lemma ret_apply [simp]: "ret x s = (Inr x, s)"
  by (simp add: ret_def)

lemma andThen_ret [simp]: "andThen (ret x) f = f x"
  by (rule ext) (simp add: andThen_def ret_def)

lemma andThen_append_bytes [simp]: "andThen (append_bytes x) f b = f () (b @ x)"
  by (simp add: andThen_def append_bytes_def)

lemma andThen_assoc: "andThen (andThen m g) f = andThen m (\<lambda>x. andThen (g x) f)"
  by (rule ext) (simp add: andThen_def split: prod.splits sum.splits)

section \<open>itoa stays inside its 32-byte array\<close>

text \<open>
  A number below \<open>10 ^ k\<close> has at most \<open>k\<close> digits, so the loop writes at most
  \<open>max k wid\<close> bytes and never reaches the index \<open>-1\<close> when the array has room for
  both.
\<close>

lemma itoa_loop_ok:
  "u < 10 ^ k \<Longrightarrow> k \<le> bp \<Longrightarrow> wid \<le> int bp \<Longrightarrow> \<exists>r. itoa_loop u wid bp ds = Inr r"
proof (induction bp arbitrary: u k wid ds)
  case 0
  then show ?case by (simp add: itoa_loop.simps)
next
  case (Suc bp)
  show ?case
  proof (cases "u > 0 \<or> wid > 0")
    case False
    then show ?thesis by (simp add: itoa_loop.simps)
  next
    case True
    have "u div 10 < 10 ^ (k - 1)"
    proof (cases k)
      case 0
      with Suc.prems show ?thesis by simp
    next
      case (Suc k')
      with Suc.prems have "u < 10 * 10 ^ k'" by simp
      then show ?thesis using Suc by (simp add: less_mult_imp_div_less mult.commute)
    qed
    moreover have "k - 1 \<le> bp" using Suc.prems by simp
    moreover have "wid - 1 \<le> int bp" using Suc.prems by simp
    ultimately obtain r
      where "itoa_loop (u div 10) (wid - 1) bp (char_of (u mod 10 + 48) # ds) = Inr r"
      using Suc.IH by blast
    with True show ?thesis by (subst itoa_loop.simps) simp
  qed
qed

text \<open>A \<open>uint\<close> is below \<open>2 ^ 64\<close>, which is below \<open>10 ^ 20\<close>, and 20 is at most 32.\<close>

lemma itoa_appends: "wid \<le> 32 \<Longrightarrow> itoa i wid = append_bytes (itoa_text i wid)"
proof -
  assume w: "wid \<le> 32"
  have "nat (i mod 2 ^ 64) < 2 ^ 64" by simp
  also have "(2::nat) ^ 64 \<le> 10 ^ 20" by simp
  finally have "nat (i mod 2 ^ 64) < 10 ^ 20" .
  then obtain r where r: "itoa_loop (nat (i mod 2 ^ 64)) wid 32 [] = Inr r"
    using itoa_loop_ok [of "nat (i mod 2 ^ 64)" 20 32 wid "[]"] w by auto
  show ?thesis
  proof (rule ext)
    fix b
    show "itoa i wid b = append_bytes (itoa_text i wid) b"
      using r by (simp add: itoa_def itoa_text_def append_bytes_def Let_def)
  qed
qed

section \<open>formatHeader\<close>

lemma append_levelString_ok:
  "0 \<le> sint lv \<Longrightarrow> sint lv \<le> 8 \<Longrightarrow>
   append_levelString lv = append_bytes (levelStrings ! nat (sint lv))"
  by (rule ext) (simp add: append_levelString_def append_bytes_def levelStrings_def)

lemma append_levelString_panics:
  "sint lv < 0 \<or> 8 < sint lv \<Longrightarrow> append_levelString lv b = (Inl IndexOutOfRange, b)"
  by (auto simp add: append_levelString_def levelStrings_def)

lemma andThen_levelString_panics:
  "sint lv < 0 \<or> 8 < sint lv \<Longrightarrow>
   andThen (append_levelString lv) f b = (Inl IndexOutOfRange, b)"
  by (simp add: andThen_def append_levelString_panics)

lemma formatHeader_ok:
  "0 \<le> sint lv \<Longrightarrow> sint lv \<le> 8 \<Longrightarrow>
   formatHeader l t lv file line b = (Inr (), b @ header l t lv file line)"
  by (simp add: formatHeader_def header_def itoa_appends append_levelString_ok andThen_assoc)

lemma formatHeader_panics:
  "sint lv < 0 \<or> 8 < sint lv \<Longrightarrow>
   fst (formatHeader l t lv file line b) = Inl IndexOutOfRange"
  by (simp add: formatHeader_def itoa_appends andThen_levelString_panics andThen_assoc)

lemma header_mu [simp]: "header (l\<lparr>mu := x\<rparr>) = header l"
  by (intro ext) (simp add: header_def formatHeader_def)

lemma header_buf [simp]: "header (l\<lparr>buf := x\<rparr>) = header l"
  by (intro ext) (simp add: header_def formatHeader_def)

text \<open>The file name loop: what it returns with and without a separator past index 0.\<close>

lemma short_loop_no_separator:
  "\<forall>j. 0 < j \<and> j \<le> i \<longrightarrow> file ! j \<noteq> CHR ''/'' \<Longrightarrow> short_loop file i = file"
  by (induction i) auto

lemma short_loop_last_separator:
  "0 < k \<Longrightarrow> k \<le> i \<Longrightarrow> file ! k = CHR ''/'' \<Longrightarrow>
   \<forall>j. k < j \<and> j \<le> i \<longrightarrow> file ! j \<noteq> CHR ''/'' \<Longrightarrow>
   short_loop file i = drop (k + 1) file"
proof (induction i)
  case 0
  then show ?case by simp
next
  case (Suc i)
  show ?case
  proof (cases "k = Suc i")
    case True
    with Suc.prems show ?thesis by simp
  next
    case False
    with Suc.prems have "k \<le> i" and "file ! Suc i \<noteq> CHR ''/''" by auto
    with Suc show ?thesis by simp
  qed
qed

section \<open>The write path\<close>

lemma mu_False_id: "\<not> mu l \<Longrightarrow> l\<lparr>buf := b, mu := False\<rparr> = l\<lparr>buf := b\<rparr>"
  by (cases l) simp

lemma Logger_output_rejected:
  "sint lv > sint (GetLevel w) \<Longrightarrow> Logger_output lv s e w = (Inr None, w)"
  by (simp add: Logger_output_def)

text \<open>
  With the mutex free and a level of the table, an accepted call leaves the line in the
  buffer, hands it to \<open>Write\<close> once and returns what \<open>Write\<close> returned.
\<close>

lemma Logger_output_accepted:
  assumes "\<not> mu (logger w)" and "sint lv \<le> sint (GetLevel w)"
    and "0 \<le> sint lv" and "sint lv \<le> 8"
  shows "Logger_output lv s e w =
     (Inr (case out (logger w) of
             None \<Rightarrow> Some ErrInvalid
           | Some f \<Rightarrow> write_file e f (log_line (logger w) e lv s)),
      w\<lparr>logger := (logger w)\<lparr>buf := log_line (logger w) e lv s\<rparr>,
        trace := trace w @ [EvWrite (out (logger w)) (log_line (logger w) e lv s)]\<rparr>)"
proof -
  obtain cf cl
    where c: "(case caller e of Some fl \<Rightarrow> fl | None \<Rightarrow> (''???'', 0)) = (cf, cl)"
    by (cases "case caller e of Some fl \<Rightarrow> fl | None \<Rightarrow> (''???'', 0::int)") blast
  then have f: "caller_file e = cf" and n: "caller_line e = cl"
    by (auto simp add: caller_file_def caller_line_def split: option.splits)
  show ?thesis
    using assms
    by (simp add: Logger_output_def mu_Lock_def mu_Unlock_def with_defer_def andThen_def
        on_buf_def out_Write_def formatHeader_ok append_bytes_def c f n log_line_def
        mu_False_id Let_def split: option.splits)
qed

text \<open>A level outside the table that passes the threshold panics in \<open>formatHeader\<close>.\<close>

lemma Logger_output_panics:
  assumes "\<not> mu (logger w)" and "sint lv \<le> sint (GetLevel w)"
    and "sint lv < 0 \<or> 8 < sint lv"
  shows "fst (Logger_output lv s e w) = Inl IndexOutOfRange"
proof -
  obtain cf cl
    where c: "(case caller e of Some fl \<Rightarrow> fl | None \<Rightarrow> (''???'', 0)) = (cf, cl)"
    by (cases "case caller e of Some fl \<Rightarrow> fl | None \<Rightarrow> (''???'', 0::int)") blast
  obtain r b where h: "formatHeader (logger w\<lparr>mu := True, buf := []\<rparr>) (now e) lv cf cl [] = (r, b)"
    by (cases "formatHeader (logger w\<lparr>mu := True, buf := []\<rparr>) (now e) lv cf cl []") blast
  with formatHeader_panics [OF assms(3), of "logger w\<lparr>mu := True, buf := []\<rparr>" "now e" cf cl "[]"]
  have r: "r = Inl IndexOutOfRange" by simp
  show ?thesis
    using assms(1,2)
    by (simp add: Logger_output_def mu_Lock_def mu_Unlock_def with_defer_def andThen_def
        on_buf_def c h r)
qed

text \<open>A call whose level passes the threshold waits for the mutex if it is held.\<close>

lemma Logger_output_blocked:
  "mu (logger w) \<Longrightarrow> sint lv \<le> sint (GetLevel w) \<Longrightarrow>
   Logger_output lv s e w = (Inl Blocked, w)"
  by (simp add: Logger_output_def mu_Lock_def andThen_def)

section \<open>Decimal digits\<close>

lemma digit_chars:
  "char_of (48 :: nat) = CHR ''0''" "char_of (49 :: nat) = CHR ''1''"
  "char_of (50 :: nat) = CHR ''2''" "char_of (51 :: nat) = CHR ''3''"
  "char_of (52 :: nat) = CHR ''4''" "char_of (53 :: nat) = CHR ''5''"
  "char_of (54 :: nat) = CHR ''6''" "char_of (55 :: nat) = CHR ''7''"
  "char_of (56 :: nat) = CHR ''8''" "char_of (57 :: nat) = CHR ''9''"
  by code_simp+

lemma digit_not_newline: "char_of (k mod 10 + 48 :: nat) \<noteq> CHR 0x0A"
proof
  assume a: "char_of (k mod 10 + 48 :: nat) = CHR 0x0A"
  have "of_char (char_of (k mod 10 + 48 :: nat)) = (k mod 10 + 48) mod 256"
    by (simp only: of_char_of)
  moreover have "of_char (CHR 0x0A) = (10 :: nat)"
    by simp
  ultimately have "(k mod 10 + 48) mod 256 = 10"
    by (simp only: a)
  moreover have "k mod 10 + 48 < 256"
    using mod_less_divisor [of 10 k] by linarith
  ultimately have "k mod 10 + 48 = 10"
    by (simp only: mod_less)
  then show False by linarith
qed

lemma decimal_last: "decimal n \<noteq> [] \<and> last (decimal n) = char_of (n mod 10 + 48)"
  by (subst (1 2) decimal.simps) simp

lemma Sprint_int32_last:
  "Sprint_int32 lv \<noteq> [] \<and> last (Sprint_int32 lv) \<noteq> CHR 0x0A"
  by (simp add: Sprint_int32_def decimal_last digit_not_newline)

section \<open>The retention sweep\<close>

lemma strings_Index_zero: "strings_Index s substr = 0 \<longleftrightarrow> prefix substr s"
proof (cases s)
  case Nil
  then show ?thesis by simp
next
  case (Cons c s')
  then show ?thesis by (simp add: Let_def)
qed

text \<open>
  What the loop removes, in the order of the listing: the entries \<open>fi\<close> for which the
  log name is a prefix of \<open>Name fi\<close> followed by a dot, old enough, when the retention
  is not zero.
\<close>

lemma deleteExpiredLog_loop_trace:
  "deleteExpiredLog_loop dirName logName e fileInfos w =
     (Inr (), w\<lparr>trace := trace w @
        map (\<lambda>fi. EvRemove (dirName @ ''/'' @ Name fi))
          (filter (\<lambda>fi. saveTime w \<noteq> 0 \<and> prefix logName (Name fi @ ''.'') \<and>
                         saveTime w \<le> time_Sub (instant (now e)) (ModTime fi)) fileInfos)\<rparr>)"
proof (induction fileInfos arbitrary: w)
  case Nil
  show ?case by (simp add: ret_def)
next
  case (Cons fi fis)
  show ?case
    by (simp add: andThen_def Let_def os_Remove_def strings_Index_zero Cons.IH Second_def)
qed

section \<open>Evaluation at concrete inputs\<close>

lemmas run_defs =
  formatHeader_def itoa_def itoa_loop.simps andThen_def append_bytes_def ret_def
  append_levelString_def levelStrings_def short_def digit_chars Logger_output_def
  mu_Lock_def mu_Unlock_def with_defer_def on_buf_def out_Write_def GetLevel_def
  initial_world_def sample_env_def sample_time_def
  LEVEL_EMERGENCY_def LEVEL_ALERT_def LEVEL_CRITICAL_def LEVEL_ERROR_def LEVEL_WARNING_def
  LEVEL_NOTICE_def LEVEL_INFO_def LEVEL_DEBUG_def LEVEL_VERBOSE_def
  Second_def Minute_def Hour_def

section \<open>The entry points, on a free mutex\<close>

lemma Critical_effect:
  assumes "\<not> mu (logger w)"
  shows "Critical s e w =
     (if sint LEVEL_CRITICAL \<le> sint (GetLevel w)
      then (Inr (), w\<lparr>logger := (logger w)\<lparr>buf := log_line (logger w) e LEVEL_CRITICAL s\<rparr>,
                     trace := trace w @
                       [EvWrite (out (logger w)) (log_line (logger w) e LEVEL_CRITICAL s)]\<rparr>)
      else (Inr (), w))"
proof (cases "sint LEVEL_CRITICAL \<le> sint (GetLevel w)")
  case True
  have r: "0 \<le> sint LEVEL_CRITICAL" "sint LEVEL_CRITICAL \<le> 8"
    by (simp_all add: LEVEL_CRITICAL_def)
  show ?thesis
    using True
    by (simp add: Critical_def andThen_def Logger_output_accepted [OF assms True r])
next
  case False
  then show ?thesis
    by (simp add: Critical_def andThen_def Logger_output_rejected)
qed

lemma Error_effect:
  assumes "\<not> mu (logger w)"
  shows "Error s e w =
     (if sint LEVEL_ERROR \<le> sint (GetLevel w)
      then (Inr (), w\<lparr>logger := (logger w)\<lparr>buf := log_line (logger w) e LEVEL_ERROR s\<rparr>,
                     trace := trace w @
                       [EvWrite (out (logger w)) (log_line (logger w) e LEVEL_ERROR s)]\<rparr>)
      else (Inr (), w))"
proof (cases "sint LEVEL_ERROR \<le> sint (GetLevel w)")
  case True
  have r: "0 \<le> sint LEVEL_ERROR" "sint LEVEL_ERROR \<le> 8"
    by (simp_all add: LEVEL_ERROR_def)
  show ?thesis
    using True
    by (simp add: Error_def andThen_def Logger_output_accepted [OF assms True r])
next
  case False
  then show ?thesis
    by (simp add: Error_def andThen_def Logger_output_rejected)
qed

text \<open>The audit text of \<open>SetLevel\<close> ends in a digit, so \<open>Logger.output\<close> adds the newline.\<close>

lemma log_line_set_level:
  "log_line l e lv (''set log level to '' @ Sprint_int32 x) =
     header l (now e) lv (caller_file e) (caller_line e) @
     ''set log level to '' @ Sprint_int32 x @ [CHR 0x0A]"
proof -
  let ?s = "''set log level to '' @ Sprint_int32 x"
  have n: "?s \<noteq> []" by simp
  have "last ?s = last (Sprint_int32 x)" using Sprint_int32_last [of x] by simp
  then have "?s ! (length ?s - 1) \<noteq> CHR 0x0A"
    using Sprint_int32_last [of x] last_conv_nth [OF n] by simp
  then show ?thesis unfolding log_line_def by simp
qed

section \<open>SetFile and ReOpen\<close>

lemma SetFile_open_failure:
  assumes "\<not> mu (logger w)" and "open_file e p = Inl (OsError msg)"
  shows "fst (SetFile p e w) = Inr () \<and>
         out (logger (snd (SetFile p e w))) = None \<and>
         path (logger (snd (SetFile p e w))) = p"
proof -
  have m: "\<not> mu (logger (w\<lparr>trace := trace w @ [EvOpenFile p]\<rparr>))"
    using assms(1) by simp
  show ?thesis
    using assms(2)
    by (simp add: SetFile_def os_OpenFile_def andThen_def Error_effect [OF m])
qed

lemma SetFile_open_success:
  assumes "open_file e p = Inr f"
  shows "SetFile p e w =
     (Inr (), w\<lparr>logger := (logger w)\<lparr>out := Some f, path := p\<rparr>,
                 trace := trace w @ [EvOpenFile p]\<rparr>)"
  using assms by (simp add: SetFile_def os_OpenFile_def andThen_def)

text \<open>
  \<open>ReOpen\<close> holds the mutex while it calls \<open>SetFile\<close>; when the file cannot be
  opened and the threshold admits \<open>ERROR\<close>, the error report waits for that mutex.
\<close>

lemma ReOpen_blocks_when_open_fails:
  assumes "path (logger w) \<noteq> []" and "\<not> mu (logger w)"
    and "open_file e (path (logger w)) = Inl (OsError msg)"
    and "sint LEVEL_ERROR \<le> sint (GetLevel w)"
  shows "fst (ReOpen p e w) = Inl Blocked"
  using assms
  by (simp add: ReOpen_def mu_Lock_def andThen_def with_defer_def out_Close_def SetFile_def
      os_OpenFile_def Error_def Logger_output_blocked GetLevel_def)

section \<open>The sweep as a whole, and the file name\<close>

lemma deleteExpiredLog_trace:
  assumes "read_dir e (filepath_Dir e (path (logger w))) = Inr fileInfos"
  shows "trace (snd (deleteExpiredLog period e w)) =
     trace w @ EvReadDir (filepath_Dir e (path (logger w))) #
       map (\<lambda>fi. EvRemove (filepath_Dir e (path (logger w)) @ ''/'' @ Name fi))
         (filter (\<lambda>fi. saveTime w \<noteq> 0 \<and>
                        prefix (filepath_Base (path (logger w))) (Name fi @ ''.'') \<and>
                        saveTime w \<le> time_Sub (instant (now e)) (ModTime fi)) fileInfos)"
  using assms
  by (simp add: deleteExpiredLog_def ioutil_ReadDir_def andThen_def Let_def
      deleteExpiredLog_loop_trace)

lemma deleteExpiredLog_zero_retention:
  assumes "read_dir e (filepath_Dir e (path (logger w))) = Inr fileInfos"
    and "saveTime w = 0"
  shows "trace (snd (deleteExpiredLog period e w)) =
     trace w @ [EvReadDir (filepath_Dir e (path (logger w)))]"
  using assms by (simp add: deleteExpiredLog_trace)

lemma short_no_separator:
  "\<forall>j. 0 < j \<and> j < length file \<longrightarrow> file ! j \<noteq> CHR ''/'' \<Longrightarrow> short file = file"
  unfolding short_def by (rule short_loop_no_separator) auto

lemma short_last_separator:
  "0 < k \<Longrightarrow> k < length file \<Longrightarrow> file ! k = CHR ''/'' \<Longrightarrow>
   \<forall>j. k < j \<and> j < length file \<longrightarrow> file ! j \<noteq> CHR ''/'' \<Longrightarrow>
   short file = drop (k + 1) file"
  unfolding short_def by (rule short_loop_last_separator) auto

section \<open>Level gating\<close>




section \<open>The bytes of a line\<close>




section \<open>The threshold\<close>

text \<open>
  Claim C5, as stated, at two inputs. With the threshold at \<open>ALERT\<close> (1),
  \<open>SetLevel(LEVEL_INFO)\<close> stores 6 and writes nothing; at the initial threshold
  the line that \<open>SetLevel(LEVEL_DEBUG)\<close> writes carries the tag of ordinal 2.
\<close>

theorem SetLevel_audit_line_counterexample:
  "trace (snd (SetLevel LEVEL_INFO sample_env alert_world)) = [] \<and>
   GetLevel (snd (SetLevel LEVEL_INFO sample_env alert_world)) = LEVEL_INFO \<and>
   trace (snd (SetLevel LEVEL_DEBUG sample_env initial_world)) =
     [EvWrite (Some Stderr)
        (''2015-05-14 09:56:00.023132 [CRITICAL] main.go:42: set log level to 7'' @ [CHR 0x0A])]"
  by (simp add: run_defs SetLevel_def Critical_def alert_world_def Sprint_int32_def
      decimal.simps)

text \<open>
  Claim C5, amended. \<open>SetLevel(lv)\<close> stores \<open>lv\<close>, which \<open>GetLevel\<close> then reads,
  and logs its audit line through \<open>Critical\<close>: at ordinal 2, against the threshold in
  force before the store, so the line is written exactly when that threshold is at
  least 2.
\<close>

theorem SetLevel_stores_and_logs_at_critical:
  assumes "\<not> mu (logger w)"
  shows "fst (SetLevel lv e w) = Inr () \<and>
         GetLevel (snd (SetLevel lv e w)) = lv \<and>
         trace (snd (SetLevel lv e w)) =
           trace w @
           (if sint LEVEL_CRITICAL \<le> sint (GetLevel w)
            then [EvWrite (out (logger w))
                    (header (logger w) (now e) LEVEL_CRITICAL (caller_file e) (caller_line e) @
                     ''set log level to '' @ Sprint_int32 lv @ [CHR 0x0A])]
            else []) \<and>
         sint LEVEL_CRITICAL = 2 \<and> levelStrings ! 2 = ''[CRITICAL]''"
proof -
  have c: "Critical (''set log level to '' @ Sprint_int32 lv) e w =
     (if sint LEVEL_CRITICAL \<le> sint (GetLevel w)
      then (Inr (), w\<lparr>logger := (logger w)\<lparr>buf :=
                       header (logger w) (now e) LEVEL_CRITICAL (caller_file e) (caller_line e) @
                       ''set log level to '' @ Sprint_int32 lv @ [CHR 0x0A]\<rparr>,
                     trace := trace w @
                       [EvWrite (out (logger w))
                         (header (logger w) (now e) LEVEL_CRITICAL (caller_file e) (caller_line e) @
                          ''set log level to '' @ Sprint_int32 lv @ [CHR 0x0A])]\<rparr>)
      else (Inr (), w))"
    unfolding Critical_effect [OF assms] log_line_set_level ..
  have "SetLevel lv e w =
      (case Critical (''set log level to '' @ Sprint_int32 lv) e w of
         (Inl x, s') \<Rightarrow> (Inl x, s')
       | (Inr a, s') \<Rightarrow> (Inr (), s'\<lparr>logger := (logger s')\<lparr>level := lv\<rparr>\<rparr>))"
    by (simp only: SetLevel_def andThen_def)
  then show ?thesis
    unfolding c by (simp add: GetLevel_def LEVEL_CRITICAL_def levelStrings_def)
qed

text \<open>\<open>SetLevel(LEVEL_DEBUG)\<close> at the initial state.\<close>

theorem SetLevel_stores_and_logs_at_critical_witness:
  "GetLevel (snd (SetLevel LEVEL_DEBUG sample_env initial_world)) = LEVEL_DEBUG \<and>
   trace (snd (SetLevel LEVEL_DEBUG sample_env initial_world)) =
     [EvWrite (Some Stderr)
        (header (logger initial_world) sample_time LEVEL_CRITICAL ''/home/u/main.go'' 42 @
         ''set log level to '' @ Sprint_int32 LEVEL_DEBUG @ [CHR 0x0A])]"
proof -
  have m: "\<not> mu (logger initial_world)" by (simp add: initial_world_def)
  have t: "sint LEVEL_CRITICAL \<le> sint (GetLevel initial_world)"
    by (simp add: GetLevel_def initial_world_def LEVEL_CRITICAL_def LEVEL_NOTICE_def)
  have c: "caller_file sample_env = ''/home/u/main.go''" "caller_line sample_env = 42"
    "now sample_env = sample_time"
    by (simp_all add: caller_file_def caller_line_def sample_env_def)
  have o: "out (logger initial_world) = Some Stderr" "trace initial_world = []"
    by (simp_all add: initial_world_def)
  show ?thesis
    using SetLevel_stores_and_logs_at_critical [OF m, of LEVEL_DEBUG sample_env] t c o
    by simp
qed

section \<open>Rotation periods\<close>

text \<open>
  Claim C8, as stated, at a period of two minutes and the initial state: the period is
  refused, and the buffer of the logger, empty before the call, holds the error line
  after it.
\<close>

theorem EnableRotate_bad_period_overwrites_buf:
  "2 * Minute \<noteq> Minute \<and> 2 * Minute \<noteq> Hour \<and> 2 * Minute \<noteq> Hour * 24 \<and>
   buf (logger initial_world) = [] \<and>
   buf (logger (snd (EnableRotate (2 * Minute) sample_env initial_world))) =
     ''2015-05-14 09:56:00.023132 [ERROR] main.go:42: bad rotate peirod: 2m0s'' @ [CHR 0x0A]"
  by (simp add: run_defs EnableRotate_def Error_def)

text \<open>
  Claim C8, amended. \<open>EnableRotate\<close> starts the rotation for a period of one minute,
  one hour or one day and changes nothing else. For any other period it calls
  \<open>Error\<close> and starts nothing: below the threshold of \<open>ERROR\<close> the state is
  unchanged, otherwise the error line is written to the sink and is left in the
  buffer, which is the only field of the logger that changes.
\<close>

theorem EnableRotate_period_check:
  assumes "\<not> mu (logger w)"
  shows "(period = Minute \<or> period = Hour \<or> period = Hour * 24 \<longrightarrow>
            EnableRotate period e w = (Inr (), w\<lparr>trace := trace w @ [EvGoRotate period]\<rparr>)) \<and>
         (period \<noteq> Minute \<and> period \<noteq> Hour \<and> period \<noteq> Hour * 24 \<longrightarrow>
            fst (EnableRotate period e w) = Inr () \<and>
            (sint (GetLevel w) < sint LEVEL_ERROR \<longrightarrow> snd (EnableRotate period e w) = w) \<and>
            (sint LEVEL_ERROR \<le> sint (GetLevel w) \<longrightarrow>
               snd (EnableRotate period e w) =
                 w\<lparr>logger := (logger w)\<lparr>buf :=
                      log_line (logger w) e LEVEL_ERROR
                        (''bad rotate peirod: '' @ duration_String e period)\<rparr>,
                   trace := trace w @
                     [EvWrite (out (logger w))
                        (log_line (logger w) e LEVEL_ERROR
                           (''bad rotate peirod: '' @ duration_String e period))]\<rparr>))"
  by (auto simp add: EnableRotate_def Error_effect [OF assms])

text \<open>One hour and two minutes at the initial state.\<close>

theorem EnableRotate_period_check_witness:
  "EnableRotate Hour sample_env initial_world =
     (Inr (), initial_world\<lparr>trace := trace initial_world @ [EvGoRotate Hour]\<rparr>) \<and>
   fst (EnableRotate (2 * Minute) sample_env initial_world) = Inr () \<and>
   snd (EnableRotate (2 * Minute) sample_env initial_world) =
     initial_world\<lparr>logger := (logger initial_world)\<lparr>buf :=
          log_line (logger initial_world) sample_env LEVEL_ERROR
            (''bad rotate peirod: '' @ duration_String sample_env (2 * Minute))\<rparr>,
       trace := trace initial_world @
         [EvWrite (out (logger initial_world))
            (log_line (logger initial_world) sample_env LEVEL_ERROR
               (''bad rotate peirod: '' @ duration_String sample_env (2 * Minute)))]\<rparr>"
proof -
  have m: "\<not> mu (logger initial_world)" by (simp add: initial_world_def)
  have p: "2 * Minute \<noteq> Minute \<and> 2 * Minute \<noteq> Hour \<and> 2 * Minute \<noteq> Hour * 24"
    by (simp add: Minute_def Hour_def Second_def)
  have t: "sint LEVEL_ERROR \<le> sint (GetLevel initial_world)"
    by (simp add: GetLevel_def initial_world_def LEVEL_ERROR_def LEVEL_NOTICE_def)
  show ?thesis
    using EnableRotate_period_check [OF m, of Hour sample_env]
      EnableRotate_period_check [OF m, of "2 * Minute" sample_env] p t
    by blast
qed

section \<open>The severity tag\<close>

text \<open>
  Claim C9. The table has 9 entries and \<open>formatHeader\<close> indexes it unchecked: it
  panics with an index out of range exactly when the level is below 0 or above 8, and
  \<open>Stacktrace\<close> reaches that panic with any such level that passes the threshold.
\<close>

theorem levelStrings_index_unchecked:
  "length levelStrings = 9 \<and>
   (fst (formatHeader l t lv f n b) = Inl IndexOutOfRange \<longleftrightarrow> sint lv < 0 \<or> 8 < sint lv) \<and>
   (\<not> mu (logger w) \<and> sint lv \<le> sint (GetLevel w) \<and> (sint lv < 0 \<or> 8 < sint lv) \<longrightarrow>
      fst (Stacktrace lv s e w) = Inl IndexOutOfRange)"
proof -
  have "fst (formatHeader l t lv f n b) = Inl IndexOutOfRange \<longleftrightarrow> sint lv < 0 \<or> 8 < sint lv"
  proof (cases "sint lv < 0 \<or> 8 < sint lv")
    case True
    then show ?thesis by (simp add: formatHeader_panics)
  next
    case False
    then have "0 \<le> sint lv" "sint lv \<le> 8" by auto
    from formatHeader_ok [OF this] False show ?thesis by simp
  qed
  moreover have "fst (Stacktrace lv s e w) = Inl IndexOutOfRange"
    if "\<not> mu (logger w)" "sint lv \<le> sint (GetLevel w)" "sint lv < 0 \<or> 8 < sint lv"
  proof -
    obtain r w' where o: "Logger_output lv s e w = (r, w')"
      by (cases "Logger_output lv s e w") blast
    with Logger_output_panics [OF that, of s e] have "r = Inl IndexOutOfRange" by simp
    with o that(2) show ?thesis by (simp add: Stacktrace_def andThen_def)
  qed
  ultimately show ?thesis by (simp add: levelStrings_def)
qed

text \<open>\<open>Stacktrace(-1, ...)\<close> at the initial state.\<close>

theorem levelStrings_index_unchecked_witness:
  "fst (Stacktrace (- 1) ''boom'' sample_env initial_world) = Inl IndexOutOfRange \<and>
   fst (formatHeader (logger initial_world) sample_time (- 1) ''main.go'' 42 []) =
     Inl IndexOutOfRange"
proof -
  have m: "\<not> mu (logger initial_world)" by (simp add: initial_world_def)
  have t: "sint (- 1 :: 32 word) \<le> sint (GetLevel initial_world)"
    by (simp add: GetLevel_def initial_world_def LEVEL_NOTICE_def)
  have n: "sint (- 1 :: 32 word) < 0 \<or> 8 < sint (- 1 :: 32 word)" by simp
  show ?thesis
    using levelStrings_index_unchecked [of "logger initial_world" sample_time "- 1"
        "''main.go''" 42 "[]" initial_world "''boom''" sample_env] m t n
    by blast
qed

section \<open>ReOpen without a file\<close>

text \<open>
  Claim C10. When the stored path is empty, \<open>ReOpen\<close> returns at once and every
  field of the state is as before.
\<close>

theorem ReOpen_without_path_is_noop:
  "path (logger w) = [] \<Longrightarrow> ReOpen p e w = (Inr (), w)"
  by (simp add: ReOpen_def)

text \<open>The initial state has no path.\<close>

theorem ReOpen_without_path_is_noop_witness:
  "path (logger initial_world) = [] \<and>
   ReOpen ''/var/log/app.log'' sample_env initial_world = (Inr (), initial_world)"
proof -
  have p: "path (logger initial_world) = []" by (simp add: initial_world_def)
  from ReOpen_without_path_is_noop [OF p] p show ?thesis by simp
qed

section \<open>A file that cannot be opened\<close>

text \<open>
  Claim C3 at \<open>SetFile("/var/log/app.log")\<close> when the file cannot be opened: the
  failure is logged at \<open>ERROR\<close> to the standard error stream, and then the sink is
  the \<open>nil\<close> file and the stored path is the new one.
\<close>

theorem SetFile_open_failure_replaces_sink:
  "open_file sample_env ''/var/log/app.log'' = Inl (OsError ''permission denied'') \<and>
   out (logger initial_world) = Some Stderr \<and>
   path (logger initial_world) = [] \<and>
   fst (SetFile ''/var/log/app.log'' sample_env initial_world) = Inr () \<and>
   out (logger (snd (SetFile ''/var/log/app.log'' sample_env initial_world))) = None \<and>
   path (logger (snd (SetFile ''/var/log/app.log'' sample_env initial_world))) =
     ''/var/log/app.log'' \<and>
   trace (snd (SetFile ''/var/log/app.log'' sample_env initial_world)) =
     [EvOpenFile ''/var/log/app.log'',
      EvWrite (Some Stderr)
        (''2015-05-14 09:56:00.023132 [ERROR] main.go:42: error on SetLogFile: err: permission denied''
         @ [CHR 0x0A])]"
  by (simp add: run_defs SetFile_def os_OpenFile_def Error_def)

section \<open>Retention\<close>

text \<open>
  Claim C2 at a retention of one hour: the sweep removes the rotated file that is two
  hours old and keeps the one that is younger than an hour, and it also removes
  \<open>app.logger\<close>, whose name does not begin with \<open>app.log.\<close>.
\<close>

theorem sweep_removes_file_without_rotation_suffix:
  "filepath_Base (path (logger sweep_world)) = ''app.log'' \<and>
   saveTime sweep_world = Hour \<and>
   \<not> prefix ''app.log.'' ''app.logger'' \<and>
   trace (snd (deleteExpiredLog Hour sweep_env sweep_world)) =
     [EvReadDir ''/var/log'',
      EvRemove ''/var/log/app.log.2015051407'',
      EvRemove ''/var/log/app.logger'']"
  by (simp add: run_defs deleteExpiredLog_def os_Remove_def ioutil_ReadDir_def
      filepath_Base_def time_Sub_def sweep_world_def sweep_env_def Let_def)

text \<open>
  Claim C4 at a retention of one second: the sweep removes \<open>app.log\<close>, the file at
  the stored path.
\<close>

theorem sweep_removes_active_file:
  "path (logger active_world) = ''/var/log/app.log'' \<and>
   saveTime active_world = Second \<and>
   trace (snd (deleteExpiredLog Minute active_env active_world)) =
     [EvReadDir ''/var/log'', EvRemove ''/var/log/app.log'']"
  by (simp add: run_defs deleteExpiredLog_def os_Remove_def ioutil_ReadDir_def
      filepath_Base_def time_Sub_def sweep_world_def active_world_def active_env_def Let_def)

section \<open>The file name in the header\<close>

text \<open>
  Claim C7 at the caller file \<open>/main.go\<close>, whose only separator is its first
  character: the header holds the whole path.
\<close>

theorem leading_separator_is_kept:
  "short ''/main.go'' = ''/main.go'' \<and>
   header (logger initial_world) sample_time LEVEL_NOTICE ''/main.go'' 42 =
     ''2015-05-14 09:56:00.023132 [NOTICE] /main.go:42: ''"
  by (simp add: run_defs header_def)

end
